theory Spec2Isabelle
  imports Main "HOL-Library.Word" "HOL-Library.Finite_Map"
begin

section \<open>Data model (order.go, executionreport.go)\<close>

text \<open>
  The Go types \<^verbatim>\<open>OrderStatus\<close>, \<^verbatim>\<open>ExecutionReportKind\<close> and \<^verbatim>\<open>ExchangeID\<close> are
  named integer types whose constants are numbered by \<^verbatim>\<open>iota\<close>; a value outside the
  declared constants is a legal value of the type, so they are integers here and the
  constants are definitions. \<^verbatim>\<open>uint64\<close> is a 64-bit word: \<open>+\<close> and \<open>*\<close> wrap around and
  \<open>div\<close> is the unsigned truncating division. \<^verbatim>\<open>time.Time\<close> is opaque to the tracker
  (it is only stored), so an instant is an integer and the zero time is \<open>0\<close>.
\<close>

type_synonym uint64 = "64 word"
type_synonym OrderStatus = int
type_synonym ExecutionReportKind = int
type_synonym OrderClientID = string
type_synonym ExchangeID = int
type_synonym SymbolID = string
type_synonym Time = int

definition OrderUnplaced :: OrderStatus where "OrderUnplaced = 0"
definition OrderPlacing :: OrderStatus where "OrderPlacing = 1"
definition OrderPlaced :: OrderStatus where "OrderPlaced = 2"
definition OrderModifying :: OrderStatus where "OrderModifying = 3"
definition OrderCanceling :: OrderStatus where "OrderCanceling = 4"
definition OrderFilled :: OrderStatus where "OrderFilled = 5"

definition ReportNone :: ExecutionReportKind where "ReportNone = 0"
definition ReportPlaced :: ExecutionReportKind where "ReportPlaced = 1"
definition ReportModified :: ExecutionReportKind where "ReportModified = 2"
definition ReportCanceled :: ExecutionReportKind where "ReportCanceled = 3"
definition ReportFilled :: ExecutionReportKind where "ReportFilled = 4"
definition ReportRejected :: ExecutionReportKind where "ReportRejected = 5"

text \<open>\<^verbatim>\<open>func (o OrderStatus) String() string\<close>: a switch with a default branch.\<close>

definition OrderStatus_String :: "OrderStatus \<Rightarrow> string" where
  "OrderStatus_String status =
     (if status = OrderUnplaced then ''Unplaced''
      else if status = OrderPlacing then ''Placing''
      else if status = OrderPlaced then ''Placed''
      else if status = OrderModifying then ''Modifying''
      else if status = OrderCanceling then ''Canceling''
      else if status = OrderFilled then ''Filled''
      else ''Unknown'')"

text \<open>
  \<^verbatim>\<open>ExchangeID\<close> and \<^verbatim>\<open>func (eid ExchangeID) String() string\<close>, the other enumeration of
  order.go with a name for each value.
\<close>

definition ExchangeNone :: ExchangeID where "ExchangeNone = 0"
definition ExchangeBinance :: ExchangeID where "ExchangeBinance = 1"
definition ExchangeKraken :: ExchangeID where "ExchangeKraken = 2"
definition ExchangeCount :: ExchangeID where "ExchangeCount = 3"

definition ExchangeID_String :: "ExchangeID \<Rightarrow> string" where
  "ExchangeID_String eid =
     (if eid = ExchangeNone then ''None''
      else if eid = ExchangeBinance then ''Binance''
      else if eid = ExchangeKraken then ''Kraken''
      else ''Unknown'')"

record Order =
  ClientID :: OrderClientID
  Exchange :: ExchangeID
  Symbol :: SymbolID
  Amount :: uint64
  Price :: uint64

definition NewOrder :: "OrderClientID \<Rightarrow> ExchangeID \<Rightarrow> SymbolID \<Rightarrow> uint64 \<Rightarrow> uint64 \<Rightarrow> Order" where
  "NewOrder clid exchange symbol amount price =
     \<lparr>ClientID = clid, Exchange = exchange, Symbol = symbol, Amount = amount, Price = price\<rparr>"

text \<open>
  \<^verbatim>\<open>ExecutionReport\<close> has fields \<^verbatim>\<open>Amount\<close> and \<^verbatim>\<open>Price\<close> like \<^verbatim>\<open>Order\<close>; the report's
  fields carry the prefix \<open>Report\<close> here to keep the two apart.
\<close>

record ExecutionReport =
  Kind :: ExecutionReportKind
  Time :: Time
  Message :: string
  ReportAmount :: uint64
  ReportPrice :: uint64

text \<open>The zero value of \<^verbatim>\<open>ExecutionReport\<close>, which a new order context starts with.\<close>

definition zero_ExecutionReport :: ExecutionReport where
  "zero_ExecutionReport =
     \<lparr>Kind = 0, Time = 0, Message = [], ReportAmount = 0, ReportPrice = 0\<rparr>"

section \<open>Tracker state (tracker.go)\<close>

record orderContext =
  Status :: OrderStatus
  Order :: Order
  LastReport :: ExecutionReport

text \<open>
  \<^verbatim>\<open>marketData.orderContext\<close> is a pointer to an order context. The only allocation of
  an order context is in \<^verbatim>\<open>OrderPlacing\<close>, which stores the fresh pointer under
  \<^verbatim>\<open>t.orders[order.ClientID]\<close>; no entry of \<^verbatim>\<open>t.orders\<close> is ever removed or replaced.
  A pointer to a context therefore determines, and is determined by, the key under which
  \<^verbatim>\<open>t.orders\<close> holds it, and the pointer is that key here (\<open>None\<close> is \<^verbatim>\<open>nil\<close>): the
  map \<open>orders\<close> is the store in which order contexts are updated in place.
\<close>

record marketData =
  bid :: uint64
  ask :: uint64
  orderContext :: "OrderClientID option"

definition zero_marketData :: marketData where
  "zero_marketData = \<lparr>bid = 0, ask = 0, orderContext = None\<rparr>"

text \<open>
  The mutex \<^verbatim>\<open>guard\<close> is held by every method from entry to return (released by
  \<^verbatim>\<open>defer\<close>, also when the method panics), so each method is one atomic step on the
  two maps.
\<close>

record Tracker =
  exchanges :: "(ExchangeID, (SymbolID, marketData) fmap) fmap"
  orders :: "(OrderClientID, orderContext) fmap"

text \<open>
  A method returns an \<^verbatim>\<open>error\<close> (\<open>Return None\<close> is \<^verbatim>\<open>nil\<close>, \<open>Return (Some msg)\<close> the
  error built by \<^verbatim>\<open>fmt.Errorf\<close> with message \<open>msg\<close>) or panics at run time. The state is
  returned next to the outcome, because several methods write to the order context before
  they fail.
\<close>

datatype outcome = Return "string option" | Panic string

definition NewTracker :: Tracker where
  "NewTracker = \<lparr>exchanges = fmempty, orders = fmempty\<rparr>"

text \<open>The messages of the three families of errors of tracker.go.\<close>

definition err_already_placed :: "OrderClientID \<Rightarrow> string" where
  "err_already_placed clid = ''order already placed (clid '' @ clid @ '')''"

definition err_not_found :: "OrderClientID \<Rightarrow> string" where
  "err_not_found clid = ''order not found (clid '' @ clid @ '')''"

text \<open>\<^verbatim>\<open>'%s'\<close> and the status names the messages quote: the text between single quotes.\<close>

definition quoted :: "string \<Rightarrow> string" where
  "quoted s = CHR 0x27 # s @ [CHR 0x27]"

definition err_status :: "string \<Rightarrow> OrderClientID \<Rightarrow> OrderStatus \<Rightarrow> string" where
  "err_status what clid st =
     what @ '' (clid '' @ clid @ '', status '' @ quoted (OrderStatus_String st) @ '')''"

text \<open>Reading a Go map at an absent key gives the zero value of the element type.\<close>

definition lookup_exchange :: "Tracker \<Rightarrow> ExchangeID \<Rightarrow> (SymbolID, marketData) fmap" where
  "lookup_exchange t exchangeID =
     (case fmlookup (exchanges t) exchangeID of None \<Rightarrow> fmempty | Some exchange \<Rightarrow> exchange)"

definition lookup_symbol :: "(SymbolID, marketData) fmap \<Rightarrow> SymbolID \<Rightarrow> marketData" where
  "lookup_symbol exchange symbolID =
     (case fmlookup exchange symbolID of None \<Rightarrow> zero_marketData | Some md \<Rightarrow> md)"

definition Tracker_OrderPlacing :: "Tracker \<Rightarrow> Order \<Rightarrow> Tracker \<times> outcome" where
  "Tracker_OrderPlacing t order =
     (case fmlookup (orders t) (ClientID order) of
        Some _ \<Rightarrow> (t, Return (Some (err_already_placed (ClientID order))))
      | None \<Rightarrow>
          (let ctx = \<lparr>Status = OrderPlacing, Order = order, LastReport = zero_ExecutionReport\<rparr>;
               exchange = lookup_exchange t (Exchange order);
               symbolContext = lookup_symbol exchange (Symbol order);
               symbolContext' = symbolContext\<lparr>orderContext := Some (ClientID order)\<rparr>;
               exchange' = fmupd (Symbol order) symbolContext' exchange
           in (\<lparr>exchanges = fmupd (Exchange order) exchange' (exchanges t),
                orders = fmupd (ClientID order) ctx (orders t)\<rparr>,
               Return None)))"

text \<open>Writing through the pointer \<^verbatim>\<open>t.orders[clid]\<close>.\<close>

definition store :: "Tracker \<Rightarrow> OrderClientID \<Rightarrow> orderContext \<Rightarrow> Tracker" where
  "store t clid ctx = t\<lparr>orders := fmupd clid ctx (orders t)\<rparr>"

definition Tracker_OrderPlaceConfirmed :: "Tracker \<Rightarrow> OrderClientID \<Rightarrow> Time \<Rightarrow> Tracker \<times> outcome" where
  "Tracker_OrderPlaceConfirmed t clid time =
     (case fmlookup (orders t) clid of
        None \<Rightarrow> (t, Return (Some (err_not_found clid)))
      | Some ctx \<Rightarrow>
          (let ctx1 = ctx\<lparr>LastReport := (LastReport ctx)\<lparr>Kind := ReportPlaced, Time := time\<rparr>\<rparr>
           in if Status ctx1 \<noteq> OrderPlacing
              then (store t clid ctx1,
                    Return (Some (err_status (''order status is not '' @ quoted ''OrderPlacing'') clid (Status ctx1))))
              else (store t clid (ctx1\<lparr>Status := OrderPlaced\<rparr>), Return None)))"

definition Tracker_OrderRejected :: "Tracker \<Rightarrow> OrderClientID \<Rightarrow> Time \<Rightarrow> string \<Rightarrow> Tracker \<times> outcome" where
  "Tracker_OrderRejected t clid time reason =
     (case fmlookup (orders t) clid of
        None \<Rightarrow> (t, Return (Some (err_not_found clid)))
      | Some ctx \<Rightarrow>
          (let ctx1 = ctx\<lparr>LastReport :=
                 (LastReport ctx)\<lparr>Kind := ReportRejected, Time := time, Message := reason\<rparr>\<rparr>
           in if Status ctx1 = OrderPlacing
              then (store t clid (ctx1\<lparr>Status := OrderUnplaced\<rparr>), Return None)
              else if Status ctx1 = OrderModifying \<or> Status ctx1 = OrderCanceling
              then (store t clid (ctx1\<lparr>Status := OrderPlaced\<rparr>), Return None)
              else (store t clid ctx1,
                    Return (Some (err_status
                      (''order status should be '' @ quoted ''OrderPlacing'' @ '', '' @ quoted ''OrderModifying''
                         @ '' or '' @ quoted ''OrderCanceling'' @ '' to reject'')
                      clid (Status ctx1))))))"

definition Tracker_OrderMoving :: "Tracker \<Rightarrow> OrderClientID \<Rightarrow> Tracker \<times> outcome" where
  "Tracker_OrderMoving t clid =
     (case fmlookup (orders t) clid of
        None \<Rightarrow> (t, Return (Some (err_not_found clid)))
      | Some ctx \<Rightarrow>
          if Status ctx \<noteq> OrderPlaced
          then (t, Return (Some (err_status (''orderContext status is not '' @ quoted ''OrderPlaced'') clid (Status ctx))))
          else (store t clid
                  (ctx\<lparr>Status := OrderModifying, LastReport := (LastReport ctx)\<lparr>Kind := ReportNone\<rparr>\<rparr>),
                Return None))"

definition Tracker_OrderMoveConfirmed ::
  "Tracker \<Rightarrow> OrderClientID \<Rightarrow> Time \<Rightarrow> uint64 \<Rightarrow> Tracker \<times> outcome" where
  "Tracker_OrderMoveConfirmed t clid time price =
     (case fmlookup (orders t) clid of
        None \<Rightarrow> (t, Return (Some (err_not_found clid)))
      | Some ctx \<Rightarrow>
          (let ctx1 = ctx\<lparr>LastReport :=
                 (LastReport ctx)\<lparr>Kind := ReportModified, Time := time, ReportPrice := price\<rparr>\<rparr>
           in if Status ctx1 \<noteq> OrderModifying
              then (store t clid ctx1,
                    Return (Some (err_status (''order status is not '' @ quoted ''OrderModifying'') clid (Status ctx1))))
              else (store t clid (ctx1\<lparr>Status := OrderPlaced, Order := (Order ctx1)\<lparr>Price := price\<rparr>\<rparr>),
                    Return None)))"

definition Tracker_OrderCancelling :: "Tracker \<Rightarrow> OrderClientID \<Rightarrow> Tracker \<times> outcome" where
  "Tracker_OrderCancelling t clid =
     (case fmlookup (orders t) clid of
        None \<Rightarrow> (t, Return (Some (err_not_found clid)))
      | Some ctx \<Rightarrow>
          if Status ctx \<noteq> OrderPlaced
          then (t, Return (Some (err_status (''order status is not '' @ quoted ''OrderPlaced'') clid (Status ctx))))
          else (store t clid
                  (ctx\<lparr>Status := OrderCanceling, LastReport := (LastReport ctx)\<lparr>Kind := ReportNone\<rparr>\<rparr>),
                Return None))"

definition Tracker_OrderCancelConfirmed :: "Tracker \<Rightarrow> OrderClientID \<Rightarrow> Time \<Rightarrow> Tracker \<times> outcome" where
  "Tracker_OrderCancelConfirmed t clid time =
     (case fmlookup (orders t) clid of
        None \<Rightarrow> (t, Return (Some (err_not_found clid)))
      | Some ctx \<Rightarrow>
          (let ctx1 = ctx\<lparr>LastReport := (LastReport ctx)\<lparr>Kind := ReportCanceled, Time := time\<rparr>\<rparr>
           in if Status ctx1 \<noteq> OrderCanceling
              then (store t clid ctx1,
                    Return (Some (err_status (''order status is not '' @ quoted ''OrderCanceling'') clid (Status ctx1))))
              else (store t clid (ctx1\<lparr>Status := OrderUnplaced\<rparr>), Return None)))"

text \<open>
  \<^verbatim>\<open>OrderFilled\<close> writes the status and the time first. In the aggregating branch the
  divisor \<^verbatim>\<open>LastReport.Amount + executedAmount\<close> is a \<^verbatim>\<open>uint64\<close> sum; when it is zero
  the division panics (``integer divide by zero''), after the two writes and before the
  price and the amount are assigned.
\<close>

definition Tracker_OrderFilled ::
  "Tracker \<Rightarrow> OrderClientID \<Rightarrow> Time \<Rightarrow> uint64 \<Rightarrow> uint64 \<Rightarrow> Tracker \<times> outcome" where
  "Tracker_OrderFilled t clid time executedAmount avgPrice =
     (case fmlookup (orders t) clid of
        None \<Rightarrow> (t, Return (Some (err_not_found clid)))
      | Some ctx \<Rightarrow>
          (let ctx1 = ctx\<lparr>Status := OrderFilled, LastReport := (LastReport ctx)\<lparr>Time := time\<rparr>\<rparr>;
               r = LastReport ctx1
           in if Kind r = ReportFilled
              then (if ReportAmount r + executedAmount = 0
                    then (store t clid ctx1, Panic ''runtime error: integer divide by zero'')
                    else (let vwap = (ReportAmount r * ReportPrice r + executedAmount * avgPrice)
                                       div (ReportAmount r + executedAmount)
                          in (store t clid (ctx1\<lparr>LastReport :=
                                r\<lparr>ReportPrice := vwap, ReportAmount := ReportAmount r + executedAmount\<rparr>\<rparr>),
                              Return None)))
              else (store t clid (ctx1\<lparr>LastReport :=
                      r\<lparr>Kind := ReportFilled, ReportAmount := executedAmount, ReportPrice := avgPrice\<rparr>\<rparr>),
                    Return None)))"

text \<open>
  \<^verbatim>\<open>GetOrderStatus\<close> writes through the two out-pointers only when the order is found;
  the result carries the values the two pointees have after the call.
\<close>

definition Tracker_GetOrderStatus ::
  "Tracker \<Rightarrow> OrderClientID \<Rightarrow> Order \<Rightarrow> ExecutionReport
     \<Rightarrow> (OrderStatus \<times> string option) \<times> Order \<times> ExecutionReport" where
  "Tracker_GetOrderStatus t clid order executionReport =
     (case fmlookup (orders t) clid of
        None \<Rightarrow> ((OrderUnplaced, Some (err_not_found clid)), order, executionReport)
      | Some ctx \<Rightarrow> ((Status ctx, None), Order ctx, LastReport ctx))"

definition Tracker_PushQuote :: "Tracker \<Rightarrow> ExchangeID \<Rightarrow> SymbolID \<Rightarrow> uint64 \<Rightarrow> uint64 \<Rightarrow> Tracker" where
  "Tracker_PushQuote t exchangeID symbolID bid' ask' =
     (let exchange = lookup_exchange t exchangeID;
          symbolContext = lookup_symbol exchange symbolID;
          symbolContext' = symbolContext\<lparr>bid := bid', ask := ask'\<rparr>
      in t\<lparr>exchanges := fmupd exchangeID (fmupd symbolID symbolContext' exchange) (exchanges t)\<rparr>)"

definition Tracker_GetOrdersCount :: "Tracker \<Rightarrow> int" where
  "Tracker_GetOrdersCount t = int (fcard (fmdom (orders t)))"

section \<open>Operations as values\<close>

text \<open>
  The mutating methods of the tracker as a datatype, one constructor per method, so that a
  property of ``every operation'' is a property of \<open>apply_op\<close>. \<^verbatim>\<open>PushQuote\<close> has no
  result; its outcome here is \<open>Return None\<close>. \<^verbatim>\<open>GetOrderStatus\<close> and
  \<^verbatim>\<open>GetOrdersCount\<close> only read the tracker and are not operations.
\<close>

datatype op =
    Placing Order
  | PlaceConfirmed OrderClientID Time
  | Rejected OrderClientID Time string
  | Moving OrderClientID
  | MoveConfirmed OrderClientID Time uint64
  | Cancelling OrderClientID
  | CancelConfirmed OrderClientID Time
  | Filled OrderClientID Time uint64 uint64
  | Quote ExchangeID SymbolID uint64 uint64

fun apply_op :: "Tracker \<Rightarrow> op \<Rightarrow> Tracker \<times> outcome" where
  "apply_op t (Placing order) = Tracker_OrderPlacing t order"
| "apply_op t (PlaceConfirmed clid time) = Tracker_OrderPlaceConfirmed t clid time"
| "apply_op t (Rejected clid time reason) = Tracker_OrderRejected t clid time reason"
| "apply_op t (Moving clid) = Tracker_OrderMoving t clid"
| "apply_op t (MoveConfirmed clid time price) = Tracker_OrderMoveConfirmed t clid time price"
| "apply_op t (Cancelling clid) = Tracker_OrderCancelling t clid"
| "apply_op t (CancelConfirmed clid time) = Tracker_OrderCancelConfirmed t clid time"
| "apply_op t (Filled clid time executedAmount avgPrice) =
     Tracker_OrderFilled t clid time executedAmount avgPrice"
| "apply_op t (Quote exchangeID symbolID bid' ask') =
     (Tracker_PushQuote t exchangeID symbolID bid' ask', Return None)"

text \<open>
  A caller that goes on after an error runs the operations one after the other; a panic
  ends the run in the state the panicking method left.
\<close>

fun run :: "Tracker \<Rightarrow> op list \<Rightarrow> Tracker" where
  "run t [] = t"
| "run t (x # xs) =
     (case apply_op t x of
        (t', Return _) \<Rightarrow> run t' xs
      | (t', Panic _) \<Rightarrow> t')"

text \<open>The entry of the Market Index for a venue and an instrument, if there is one.\<close>

definition market :: "Tracker \<Rightarrow> ExchangeID \<Rightarrow> SymbolID \<Rightarrow> marketData option" where
  "market t exchangeID symbolID =
     (case fmlookup (exchanges t) exchangeID of
        None \<Rightarrow> None
      | Some exchange \<Rightarrow> fmlookup exchange symbolID)"

section \<open>Example inputs\<close>

definition ex_order :: Order where
  "ex_order = NewOrder ''a1'' 1 ''BTCUSDT'' 500 10"

definition ex_ctx :: "OrderStatus \<Rightarrow> ExecutionReport \<Rightarrow> orderContext" where
  "ex_ctx st r = \<lparr>Status = st, Order = ex_order, LastReport = r\<rparr>"

text \<open>The tracker that holds \<open>ex_order\<close> alone, with a given status and last report.\<close>

definition ex_tracker :: "OrderStatus \<Rightarrow> ExecutionReport \<Rightarrow> Tracker" where
  "ex_tracker st r =
     \<lparr>exchanges = fmupd 1 (fmupd ''BTCUSDT'' \<lparr>bid = 0, ask = 0, orderContext = Some ''a1''\<rparr> fmempty)
                    fmempty,
      orders = fmupd ''a1'' (ex_ctx st r) fmempty\<rparr>"

section \<open>Basic facts\<close>

lemmas OrderStatus_defs =
  OrderUnplaced_def OrderPlacing_def OrderPlaced_def
  OrderModifying_def OrderCanceling_def OrderFilled_def

lemmas ExecutionReportKind_defs =
  ReportNone_def ReportPlaced_def ReportModified_def
  ReportCanceled_def ReportFilled_def ReportRejected_def

lemma orders_store [simp]: "orders (store t clid ctx) = fmupd clid ctx (orders t)"
  by (simp add: store_def)

lemma exchanges_store [simp]: "exchanges (store t clid ctx) = exchanges t"
  by (simp add: store_def)

lemma fcard_fmdom_fresh:
  "fmlookup m k = None \<Longrightarrow> fcard (finsert k (fmdom m)) = Suc (fcard (fmdom m))"
  by (simp add: fcard_finsert_disjoint fmdom_notI)

lemma ex_tracker_lookup: "fmlookup (orders (ex_tracker st r)) ''a1'' = Some (ex_ctx st r)"
  by (simp add: ex_tracker_def)

text \<open>Placing \<open>ex_order\<close> on a new tracker gives the example tracker in status Placing.\<close>

lemma OrderPlacing_NewTracker:
  "Tracker_OrderPlacing NewTracker ex_order = (ex_tracker OrderPlacing zero_ExecutionReport, Return None)"
  by (simp add: ex_tracker_def ex_ctx_def Tracker_OrderPlacing_def NewTracker_def ex_order_def
        NewOrder_def lookup_exchange_def lookup_symbol_def zero_marketData_def Let_def)

section \<open>Placement\<close>

text \<open>
  C7. Placing an order whose identifier is not in the Order Index succeeds, raises
  \<^verbatim>\<open>GetOrdersCount\<close> by exactly one and leaves the order in status Placing (as
  \<^verbatim>\<open>GetOrderStatus\<close> reports it, for any initial contents of its two out-parameters);
  placing an order whose identifier is present fails with the error ``order already
  placed'' and leaves the count as it was.
\<close>

theorem OrderPlacing_fresh_or_duplicate:
  "(fmlookup (orders t) (ClientID order) = None \<longrightarrow>
      snd (Tracker_OrderPlacing t order) = Return None
      \<and> Tracker_GetOrdersCount (fst (Tracker_OrderPlacing t order)) = Tracker_GetOrdersCount t + 1
      \<and> fst (Tracker_GetOrderStatus (fst (Tracker_OrderPlacing t order)) (ClientID order) order0 report0)
          = (OrderPlacing, None))
   \<and> (fmlookup (orders t) (ClientID order) \<noteq> None \<longrightarrow>
      snd (Tracker_OrderPlacing t order) = Return (Some (err_already_placed (ClientID order)))
      \<and> Tracker_GetOrdersCount (fst (Tracker_OrderPlacing t order)) = Tracker_GetOrdersCount t)"
  by (auto simp: Tracker_OrderPlacing_def Tracker_GetOrdersCount_def Tracker_GetOrderStatus_def
        Let_def fcard_fmdom_fresh)

theorem OrderPlacing_fresh_or_duplicate_witness:
  "fmlookup (orders NewTracker) (ClientID ex_order) = None
   \<and> snd (Tracker_OrderPlacing NewTracker ex_order) = Return None
   \<and> Tracker_GetOrdersCount NewTracker = 0
   \<and> Tracker_GetOrdersCount (fst (Tracker_OrderPlacing NewTracker ex_order)) = 1
   \<and> fst (Tracker_GetOrderStatus (fst (Tracker_OrderPlacing NewTracker ex_order)) (ClientID ex_order)
            ex_order zero_ExecutionReport) = (OrderPlacing, None)
   \<and> fmlookup (orders (ex_tracker OrderPlaced zero_ExecutionReport)) (ClientID ex_order) \<noteq> None
   \<and> snd (Tracker_OrderPlacing (ex_tracker OrderPlaced zero_ExecutionReport) ex_order)
       = Return (Some ''order already placed (clid a1)'')
   \<and> Tracker_GetOrdersCount (fst (Tracker_OrderPlacing (ex_tracker OrderPlaced zero_ExecutionReport) ex_order))
       = Tracker_GetOrdersCount (ex_tracker OrderPlaced zero_ExecutionReport)"
proof -
  have fresh: "fmlookup (orders NewTracker) (ClientID ex_order) = None"
    by (simp add: NewTracker_def)
  have known: "fmlookup (orders (ex_tracker OrderPlaced zero_ExecutionReport)) (ClientID ex_order) \<noteq> None"
    by (simp add: ex_tracker_def ex_order_def NewOrder_def)
  have zero: "Tracker_GetOrdersCount NewTracker = 0"
    by (simp add: Tracker_GetOrdersCount_def NewTracker_def)
  have clid: "err_already_placed (ClientID ex_order) = ''order already placed (clid a1)''"
    by (simp add: err_already_placed_def ex_order_def NewOrder_def)
  show ?thesis
    using OrderPlacing_fresh_or_duplicate [of NewTracker ex_order ex_order zero_ExecutionReport]
          OrderPlacing_fresh_or_duplicate
            [of "ex_tracker OrderPlaced zero_ExecutionReport" ex_order ex_order zero_ExecutionReport]
          fresh known zero clid
    by simp
qed

text \<open>
  C4. For a tracked order, \<^verbatim>\<open>OrderPlaceConfirmed\<close> sets the report kind to Placed and the
  report time to the given time whatever the status is. If the status is Placing it
  becomes Placed and the call returns no error; otherwise the status stays as it was and
  the call returns the error that the order status is not \<^verbatim>\<open>'OrderPlacing'\<close>.
\<close>

theorem OrderPlaceConfirmed_report_before_check:
  assumes "fmlookup (orders t) clid = Some ctx"
  shows "\<exists>ctx'. fmlookup (orders (fst (Tracker_OrderPlaceConfirmed t clid time))) clid = Some ctx'
           \<and> Kind (LastReport ctx') = ReportPlaced
           \<and> Time (LastReport ctx') = time
           \<and> (if Status ctx = OrderPlacing
                then Status ctx' = OrderPlaced
                   \<and> snd (Tracker_OrderPlaceConfirmed t clid time) = Return None
                else Status ctx' = Status ctx
                   \<and> snd (Tracker_OrderPlaceConfirmed t clid time) =
                       Return (Some (err_status (''order status is not '' @ quoted ''OrderPlacing'')
                                       clid (Status ctx))))"
  using assms by (simp add: Tracker_OrderPlaceConfirmed_def Let_def)

theorem OrderPlaceConfirmed_report_before_check_witness:
  "fmlookup (orders (ex_tracker OrderPlaced zero_ExecutionReport)) ''a1''
     = Some (ex_ctx OrderPlaced zero_ExecutionReport)
   \<and> (\<exists>ctx'. fmlookup (orders (fst (Tracker_OrderPlaceConfirmed
                 (ex_tracker OrderPlaced zero_ExecutionReport) ''a1'' 7))) ''a1'' = Some ctx'
           \<and> Kind (LastReport ctx') = ReportPlaced
           \<and> Time (LastReport ctx') = 7
           \<and> Status ctx' = OrderPlaced)
   \<and> snd (Tracker_OrderPlaceConfirmed (ex_tracker OrderPlaced zero_ExecutionReport) ''a1'' 7)
       = Return (Some (''order status is not '' @ quoted ''OrderPlacing''
                         @ '' (clid a1, status '' @ quoted ''Placed'' @ '')''))
   \<and> (\<exists>ctx'. fmlookup (orders (fst (Tracker_OrderPlaceConfirmed
                 (ex_tracker OrderPlacing zero_ExecutionReport) ''a1'' 7))) ''a1'' = Some ctx'
           \<and> Kind (LastReport ctx') = ReportPlaced
           \<and> Status ctx' = OrderPlaced)
   \<and> snd (Tracker_OrderPlaceConfirmed (ex_tracker OrderPlacing zero_ExecutionReport) ''a1'' 7) = Return None"
proof -
  have msg: "err_status (''order status is not '' @ quoted ''OrderPlacing'') ''a1'' OrderPlaced
               = ''order status is not '' @ quoted ''OrderPlacing''
                   @ '' (clid a1, status '' @ quoted ''Placed'' @ '')''"
    by (simp add: err_status_def quoted_def OrderStatus_String_def OrderStatus_defs)
  show ?thesis
    using OrderPlaceConfirmed_report_before_check
            [OF ex_tracker_lookup, of OrderPlaced zero_ExecutionReport 7]
          OrderPlaceConfirmed_report_before_check
            [OF ex_tracker_lookup, of OrderPlacing zero_ExecutionReport 7]
          ex_tracker_lookup [of OrderPlaced zero_ExecutionReport] msg
    by (auto simp: ex_ctx_def OrderStatus_defs)
qed

section \<open>Rejection\<close>

text \<open>
  C5. For a tracked order, \<^verbatim>\<open>OrderRejected\<close> sets the report kind to Rejected and records
  the time and the reason message, whatever the status is. Then: from status Placing the
  order goes to Unplaced and the call succeeds; from Modifying or Canceling it goes to
  Placed and the call succeeds; from any other status the status is unchanged and the call
  returns the error that the status should be one of the three.
\<close>

theorem OrderRejected_reverts_status:
  assumes "fmlookup (orders t) clid = Some ctx"
  shows "\<exists>ctx'. fmlookup (orders (fst (Tracker_OrderRejected t clid time reason))) clid = Some ctx'
           \<and> Kind (LastReport ctx') = ReportRejected
           \<and> Time (LastReport ctx') = time
           \<and> Message (LastReport ctx') = reason
           \<and> (if Status ctx = OrderPlacing
                then Status ctx' = OrderUnplaced
                   \<and> snd (Tracker_OrderRejected t clid time reason) = Return None
                else if Status ctx = OrderModifying \<or> Status ctx = OrderCanceling
                then Status ctx' = OrderPlaced
                   \<and> snd (Tracker_OrderRejected t clid time reason) = Return None
                else Status ctx' = Status ctx
                   \<and> snd (Tracker_OrderRejected t clid time reason) =
                       Return (Some (err_status
                         (''order status should be '' @ quoted ''OrderPlacing'' @ '', ''
                            @ quoted ''OrderModifying'' @ '' or '' @ quoted ''OrderCanceling''
                            @ '' to reject'')
                         clid (Status ctx))))"
  using assms by (simp add: Tracker_OrderRejected_def Let_def)

theorem OrderRejected_reverts_status_witness:
  "fmlookup (orders (ex_tracker OrderModifying zero_ExecutionReport)) ''a1''
     = Some (ex_ctx OrderModifying zero_ExecutionReport)
   \<and> (\<exists>ctx'. fmlookup (orders (fst (Tracker_OrderRejected
                 (ex_tracker OrderModifying zero_ExecutionReport) ''a1'' 9 ''price band''))) ''a1'' = Some ctx'
           \<and> Kind (LastReport ctx') = ReportRejected
           \<and> Time (LastReport ctx') = 9
           \<and> Message (LastReport ctx') = ''price band''
           \<and> Status ctx' = OrderPlaced)
   \<and> snd (Tracker_OrderRejected (ex_tracker OrderModifying zero_ExecutionReport) ''a1'' 9 ''price band'')
       = Return None
   \<and> (\<exists>ctx'. fmlookup (orders (fst (Tracker_OrderRejected
                 (ex_tracker OrderPlacing zero_ExecutionReport) ''a1'' 9 ''price band''))) ''a1'' = Some ctx'
           \<and> Kind (LastReport ctx') = ReportRejected
           \<and> Status ctx' = OrderUnplaced)
   \<and> (\<exists>ctx'. fmlookup (orders (fst (Tracker_OrderRejected
                 (ex_tracker OrderFilled zero_ExecutionReport) ''a1'' 9 ''price band''))) ''a1'' = Some ctx'
           \<and> Kind (LastReport ctx') = ReportRejected
           \<and> Status ctx' = OrderFilled)
   \<and> snd (Tracker_OrderRejected (ex_tracker OrderFilled zero_ExecutionReport) ''a1'' 9 ''price band'')
       \<noteq> Return None"
  using OrderRejected_reverts_status
          [OF ex_tracker_lookup, of OrderModifying zero_ExecutionReport 9 "''price band''"]
        OrderRejected_reverts_status
          [OF ex_tracker_lookup, of OrderPlacing zero_ExecutionReport 9 "''price band''"]
        OrderRejected_reverts_status
          [OF ex_tracker_lookup, of OrderFilled zero_ExecutionReport 9 "''price band''"]
        ex_tracker_lookup [of OrderModifying zero_ExecutionReport]
  by (auto simp: ex_ctx_def OrderStatus_defs)

section \<open>Starting a move or a cancellation\<close>

text \<open>
  C10. \<^verbatim>\<open>OrderMoving\<close> and \<^verbatim>\<open>OrderCancelling\<close> return an error exactly when the identifier
  is unknown or the status is not Placed, and \<^verbatim>\<open>OrderPlacing\<close> exactly when the identifier
  is present; whenever one of the three returns an error the whole tracker is as it was
  before the call. The confirming and rejecting methods differ: on a tracked order whose
  status fails their test they return an error and the stored report nevertheless carries
  their kind and the given time.
\<close>

theorem start_operations_atomic_on_error:
  "(snd (Tracker_OrderMoving t clid) \<noteq> Return None \<longrightarrow> fst (Tracker_OrderMoving t clid) = t)
   \<and> (snd (Tracker_OrderMoving t clid) \<noteq> Return None \<longleftrightarrow>
        (\<forall>ctx. fmlookup (orders t) clid = Some ctx \<longrightarrow> Status ctx \<noteq> OrderPlaced))
   \<and> (snd (Tracker_OrderCancelling t clid) \<noteq> Return None \<longrightarrow> fst (Tracker_OrderCancelling t clid) = t)
   \<and> (snd (Tracker_OrderCancelling t clid) \<noteq> Return None \<longleftrightarrow>
        (\<forall>ctx. fmlookup (orders t) clid = Some ctx \<longrightarrow> Status ctx \<noteq> OrderPlaced))
   \<and> (snd (Tracker_OrderPlacing t order) \<noteq> Return None \<longrightarrow> fst (Tracker_OrderPlacing t order) = t)
   \<and> (snd (Tracker_OrderPlacing t order) \<noteq> Return None \<longleftrightarrow> fmlookup (orders t) (ClientID order) \<noteq> None)
   \<and> (\<forall>ctx. fmlookup (orders t) clid = Some ctx \<and> Status ctx \<noteq> OrderPlacing \<longrightarrow>
         snd (Tracker_OrderPlaceConfirmed t clid time) \<noteq> Return None
         \<and> fmlookup (orders (fst (Tracker_OrderPlaceConfirmed t clid time))) clid
             = Some (ctx\<lparr>LastReport := (LastReport ctx)\<lparr>Kind := ReportPlaced, Time := time\<rparr>\<rparr>))
   \<and> (\<forall>ctx. fmlookup (orders t) clid = Some ctx \<and> Status ctx \<noteq> OrderModifying \<longrightarrow>
         snd (Tracker_OrderMoveConfirmed t clid time price) \<noteq> Return None
         \<and> fmlookup (orders (fst (Tracker_OrderMoveConfirmed t clid time price))) clid
             = Some (ctx\<lparr>LastReport :=
                      (LastReport ctx)\<lparr>Kind := ReportModified, Time := time, ReportPrice := price\<rparr>\<rparr>))
   \<and> (\<forall>ctx. fmlookup (orders t) clid = Some ctx \<and> Status ctx \<noteq> OrderCanceling \<longrightarrow>
         snd (Tracker_OrderCancelConfirmed t clid time) \<noteq> Return None
         \<and> fmlookup (orders (fst (Tracker_OrderCancelConfirmed t clid time))) clid
             = Some (ctx\<lparr>LastReport := (LastReport ctx)\<lparr>Kind := ReportCanceled, Time := time\<rparr>\<rparr>))
   \<and> (\<forall>ctx. fmlookup (orders t) clid = Some ctx \<and> Status ctx \<noteq> OrderPlacing
              \<and> Status ctx \<noteq> OrderModifying \<and> Status ctx \<noteq> OrderCanceling \<longrightarrow>
         snd (Tracker_OrderRejected t clid time reason) \<noteq> Return None
         \<and> fmlookup (orders (fst (Tracker_OrderRejected t clid time reason))) clid
             = Some (ctx\<lparr>LastReport :=
                      (LastReport ctx)\<lparr>Kind := ReportRejected, Time := time, Message := reason\<rparr>\<rparr>))"
  by (auto simp: Tracker_OrderMoving_def Tracker_OrderCancelling_def Tracker_OrderPlacing_def
                 Tracker_OrderPlaceConfirmed_def Tracker_OrderMoveConfirmed_def
                 Tracker_OrderCancelConfirmed_def Tracker_OrderRejected_def Let_def
           split: option.splits)

theorem start_operations_atomic_on_error_witness:
  "snd (Tracker_OrderMoving (ex_tracker OrderPlacing zero_ExecutionReport) ''a1'') \<noteq> Return None
   \<and> fst (Tracker_OrderMoving (ex_tracker OrderPlacing zero_ExecutionReport) ''a1'')
       = ex_tracker OrderPlacing zero_ExecutionReport
   \<and> snd (Tracker_OrderCancelling (ex_tracker OrderPlacing zero_ExecutionReport) ''a1'') \<noteq> Return None
   \<and> fst (Tracker_OrderCancelling (ex_tracker OrderPlacing zero_ExecutionReport) ''a1'')
       = ex_tracker OrderPlacing zero_ExecutionReport
   \<and> snd (Tracker_OrderPlacing (ex_tracker OrderPlacing zero_ExecutionReport) ex_order) \<noteq> Return None
   \<and> fst (Tracker_OrderPlacing (ex_tracker OrderPlacing zero_ExecutionReport) ex_order)
       = ex_tracker OrderPlacing zero_ExecutionReport
   \<and> snd (Tracker_OrderCancelConfirmed (ex_tracker OrderPlacing zero_ExecutionReport) ''a1'' 4)
       \<noteq> Return None
   \<and> fmlookup (orders (fst (Tracker_OrderCancelConfirmed
                 (ex_tracker OrderPlacing zero_ExecutionReport) ''a1'' 4))) ''a1''
       = Some (ex_ctx OrderPlacing (zero_ExecutionReport\<lparr>Kind := ReportCanceled, Time := 4\<rparr>))
   \<and> snd (Tracker_OrderMoveConfirmed (ex_tracker OrderPlacing zero_ExecutionReport) ''a1'' 4 12)
       \<noteq> Return None
   \<and> snd (Tracker_OrderPlaceConfirmed (ex_tracker OrderPlaced zero_ExecutionReport) ''a1'' 4)
       \<noteq> Return None
   \<and> snd (Tracker_OrderRejected (ex_tracker OrderPlaced zero_ExecutionReport) ''a1'' 4 ''no'')
       \<noteq> Return None"
proof -
  have known: "fmlookup (orders (ex_tracker OrderPlacing zero_ExecutionReport)) (ClientID ex_order) \<noteq> None"
    by (simp add: ex_tracker_def ex_order_def NewOrder_def)
  show ?thesis
    using start_operations_atomic_on_error
            [of "ex_tracker OrderPlacing zero_ExecutionReport" "''a1''" ex_order 4 12 "''no''"]
          start_operations_atomic_on_error
            [of "ex_tracker OrderPlaced zero_ExecutionReport" "''a1''" ex_order 4 12 "''no''"]
          known
    by (simp add: ex_tracker_lookup ex_ctx_def OrderStatus_defs)
qed

section \<open>Confirmed price moves and the order's own fields\<close>

text \<open>What each method does to the context of a tracked order other than its target.\<close>

lemma apply_op_keeps_order:
  assumes "fmlookup (orders t) c = Some ctx"
      and "\<forall>time price. x \<noteq> MoveConfirmed c time price"
  shows "\<exists>ctx'. fmlookup (orders (fst (apply_op t x))) c = Some ctx' \<and> Order ctx' = Order ctx"
proof (cases x)
  case (Placing order)
  then show ?thesis
    using assms(1) by (cases "ClientID order = c") (auto simp: Tracker_OrderPlacing_def Let_def split: option.splits)
next
  case (PlaceConfirmed clid time)
  then show ?thesis
    using assms(1) by (auto simp: Tracker_OrderPlaceConfirmed_def Let_def split: option.splits)
next
  case (Rejected clid time reason)
  then show ?thesis
    using assms(1) by (auto simp: Tracker_OrderRejected_def Let_def split: option.splits)
next
  case (Moving clid)
  then show ?thesis
    using assms(1) by (auto simp: Tracker_OrderMoving_def Let_def split: option.splits)
next
  case (MoveConfirmed clid time price)
  with assms(2) have "clid \<noteq> c" by auto
  with MoveConfirmed show ?thesis
    using assms(1) by (auto simp: Tracker_OrderMoveConfirmed_def Let_def split: option.splits)
next
  case (Cancelling clid)
  then show ?thesis
    using assms(1) by (auto simp: Tracker_OrderCancelling_def Let_def split: option.splits)
next
  case (CancelConfirmed clid time)
  then show ?thesis
    using assms(1) by (auto simp: Tracker_OrderCancelConfirmed_def Let_def split: option.splits)
next
  case (Filled clid time executedAmount avgPrice)
  then show ?thesis
    using assms(1) by (auto simp: Tracker_OrderFilled_def Let_def split: option.splits)
next
  case (Quote exchangeID symbolID bid' ask')
  then show ?thesis
    using assms(1) by (simp add: Tracker_PushQuote_def Let_def)
qed

text \<open>
  C6. For a tracked order: \<^verbatim>\<open>OrderMoveConfirmed\<close> in status Modifying returns no error,
  sets the status to Placed and \<^verbatim>\<open>Order.Price\<close> to the new price, and records a report of
  kind Modified with the given time and the new price, changing no other field of the
  order; in any other status it records the same report, returns the error that the status
  is not \<^verbatim>\<open>'OrderModifying'\<close>, and leaves the status and every field of the order as they
  were. Every other operation (any method on any identifier, a move confirmation for
  another identifier included) leaves every field of the order as it was.
\<close>

theorem Order_changes_only_by_confirmed_move:
  assumes "fmlookup (orders t) c = Some ctx"
  shows "(Status ctx = OrderModifying \<longrightarrow>
            snd (Tracker_OrderMoveConfirmed t c time price) = Return None
            \<and> (\<exists>ctx'. fmlookup (orders (fst (Tracker_OrderMoveConfirmed t c time price))) c = Some ctx'
                  \<and> Status ctx' = OrderPlaced
                  \<and> Order ctx' = (Order ctx)\<lparr>Price := price\<rparr>
                  \<and> Kind (LastReport ctx') = ReportModified
                  \<and> Time (LastReport ctx') = time
                  \<and> ReportPrice (LastReport ctx') = price))
       \<and> (Status ctx \<noteq> OrderModifying \<longrightarrow>
            snd (Tracker_OrderMoveConfirmed t c time price) =
              Return (Some (err_status (''order status is not '' @ quoted ''OrderModifying'')
                              c (Status ctx)))
            \<and> (\<exists>ctx'. fmlookup (orders (fst (Tracker_OrderMoveConfirmed t c time price))) c = Some ctx'
                  \<and> Status ctx' = Status ctx
                  \<and> Order ctx' = Order ctx
                  \<and> Kind (LastReport ctx') = ReportModified
                  \<and> Time (LastReport ctx') = time
                  \<and> ReportPrice (LastReport ctx') = price))
       \<and> ((\<forall>time' price'. x \<noteq> MoveConfirmed c time' price') \<longrightarrow>
            (\<exists>ctx'. fmlookup (orders (fst (apply_op t x))) c = Some ctx' \<and> Order ctx' = Order ctx))"
proof (intro conjI impI)
  assume "\<forall>time' price'. x \<noteq> MoveConfirmed c time' price'"
  with assms show "\<exists>ctx'. fmlookup (orders (fst (apply_op t x))) c = Some ctx' \<and> Order ctx' = Order ctx"
    by (rule apply_op_keeps_order)
qed (use assms in \<open>simp_all add: Tracker_OrderMoveConfirmed_def Let_def\<close>)

theorem Order_changes_only_by_confirmed_move_witness:
  "fmlookup (orders (ex_tracker OrderModifying zero_ExecutionReport)) ''a1''
     = Some (ex_ctx OrderModifying zero_ExecutionReport)
   \<and> snd (Tracker_OrderMoveConfirmed (ex_tracker OrderModifying zero_ExecutionReport) ''a1'' 3 12)
       = Return None
   \<and> (\<exists>ctx'. fmlookup (orders (fst (Tracker_OrderMoveConfirmed
                 (ex_tracker OrderModifying zero_ExecutionReport) ''a1'' 3 12))) ''a1'' = Some ctx'
           \<and> Status ctx' = OrderPlaced
           \<and> Order ctx' = ex_order\<lparr>Price := 12\<rparr>
           \<and> ReportPrice (LastReport ctx') = 12)
   \<and> snd (Tracker_OrderMoveConfirmed (ex_tracker OrderPlaced zero_ExecutionReport) ''a1'' 3 12)
       \<noteq> Return None
   \<and> (\<exists>ctx'. fmlookup (orders (fst (Tracker_OrderMoveConfirmed
                 (ex_tracker OrderPlaced zero_ExecutionReport) ''a1'' 3 12))) ''a1'' = Some ctx'
           \<and> Status ctx' = OrderPlaced
           \<and> Order ctx' = ex_order
           \<and> Kind (LastReport ctx') = ReportModified
           \<and> ReportPrice (LastReport ctx') = 12)
   \<and> (\<exists>ctx'. fmlookup (orders (fst (apply_op (ex_tracker OrderModifying zero_ExecutionReport)
                                       (Filled ''a1'' 3 100 12)))) ''a1'' = Some ctx'
           \<and> Order ctx' = ex_order)"
proof -
  have other: "\<forall>time' price'. Filled ''a1'' 3 100 12 \<noteq> MoveConfirmed ''a1'' time' price'"
    by simp
  show ?thesis
    using Order_changes_only_by_confirmed_move
            [OF ex_tracker_lookup, of OrderModifying zero_ExecutionReport 3 12 "Filled ''a1'' 3 100 12"]
          Order_changes_only_by_confirmed_move
            [OF ex_tracker_lookup, of OrderPlaced zero_ExecutionReport 3 12 "Filled ''a1'' 3 100 12"]
          ex_tracker_lookup [of OrderModifying zero_ExecutionReport] other
    by (auto simp: ex_ctx_def OrderStatus_defs)
qed

section \<open>Quotes\<close>

lemma market_PushQuote_same:
  "market (Tracker_PushQuote t e s b a) e s
     = Some ((lookup_symbol (lookup_exchange t e) s)\<lparr>bid := b, ask := a\<rparr>)"
  by (simp add: market_def Tracker_PushQuote_def Let_def)

lemma market_PushQuote_other:
  "(e', s') \<noteq> (e, s) \<Longrightarrow> market (Tracker_PushQuote t e s b a) e' s' = market t e' s'"
  by (auto simp: market_def Tracker_PushQuote_def Let_def lookup_exchange_def split: option.splits)

lemma orderContext_lookup_symbol:
  "orderContext (lookup_symbol (lookup_exchange t e) s)
     = (case market t e s of None \<Rightarrow> None | Some old \<Rightarrow> orderContext old)"
  by (simp add: market_def lookup_symbol_def lookup_exchange_def zero_marketData_def
           split: option.splits)

text \<open>
  C8. After \<^verbatim>\<open>PushQuote(venue, instrument, bid, ask)\<close> the Market Index has a map for the
  venue and in it an entry for the instrument, whether or not they were there before; the
  entry's bid and ask are the given values, for every pair of values (nothing compares
  bid with ask), and its back-reference is the one the entry had before (none if the entry
  is new). The entry of every other pair of venue and instrument is as before, no venue is
  dropped or added other than the one of the quote, and the Order Index is unchanged.
\<close>

theorem PushQuote_overwrites_one_entry:
  "(\<exists>exchange md. fmlookup (exchanges (Tracker_PushQuote t e s b a)) e = Some exchange
        \<and> fmlookup exchange s = Some md
        \<and> market (Tracker_PushQuote t e s b a) e s = Some md
        \<and> bid md = b \<and> ask md = a
        \<and> orderContext md = (case market t e s of None \<Rightarrow> None | Some old \<Rightarrow> orderContext old))
   \<and> (\<forall>e' s'. (e', s') \<noteq> (e, s) \<longrightarrow> market (Tracker_PushQuote t e s b a) e' s' = market t e' s')
   \<and> (\<forall>e'. e' \<noteq> e \<longrightarrow>
         fmlookup (exchanges (Tracker_PushQuote t e s b a)) e' = fmlookup (exchanges t) e')
   \<and> orders (Tracker_PushQuote t e s b a) = orders t"
proof (intro conjI allI impI)
  show "\<exists>exchange md. fmlookup (exchanges (Tracker_PushQuote t e s b a)) e = Some exchange
        \<and> fmlookup exchange s = Some md
        \<and> market (Tracker_PushQuote t e s b a) e s = Some md
        \<and> bid md = b \<and> ask md = a
        \<and> orderContext md = (case market t e s of None \<Rightarrow> None | Some old \<Rightarrow> orderContext old)"
    using orderContext_lookup_symbol [of t e s]
    by (simp add: market_def Tracker_PushQuote_def Let_def)
next
  fix e' s' assume "(e', s') \<noteq> (e, s)"
  then show "market (Tracker_PushQuote t e s b a) e' s' = market t e' s'"
    by (rule market_PushQuote_other)
next
  fix e' assume "e' \<noteq> e"
  then show "fmlookup (exchanges (Tracker_PushQuote t e s b a)) e' = fmlookup (exchanges t) e'"
    by (simp add: Tracker_PushQuote_def Let_def)
next
  show "orders (Tracker_PushQuote t e s b a) = orders t"
    by (simp add: Tracker_PushQuote_def Let_def)
qed

theorem PushQuote_overwrites_one_entry_witness:
  "market (ex_tracker OrderPlaced zero_ExecutionReport) 2 ''ETHUSDT'' = None
   \<and> market (Tracker_PushQuote (ex_tracker OrderPlaced zero_ExecutionReport) 2 ''ETHUSDT'' 105 100)
        2 ''ETHUSDT'' = Some \<lparr>bid = 105, ask = 100, orderContext = None\<rparr>
   \<and> (1, ''BTCUSDT'') \<noteq> (2 :: ExchangeID, ''ETHUSDT'')
   \<and> market (Tracker_PushQuote (ex_tracker OrderPlaced zero_ExecutionReport) 2 ''ETHUSDT'' 105 100)
        1 ''BTCUSDT'' = Some \<lparr>bid = 0, ask = 0, orderContext = Some ''a1''\<rparr>
   \<and> fmlookup (exchanges (Tracker_PushQuote (ex_tracker OrderPlaced zero_ExecutionReport)
                            2 ''ETHUSDT'' 105 100)) 1
       = fmlookup (exchanges (ex_tracker OrderPlaced zero_ExecutionReport)) 1
   \<and> orders (Tracker_PushQuote (ex_tracker OrderPlaced zero_ExecutionReport) 2 ''ETHUSDT'' 105 100)
       = orders (ex_tracker OrderPlaced zero_ExecutionReport)"
proof -
  have absent: "market (ex_tracker OrderPlaced zero_ExecutionReport) 2 ''ETHUSDT'' = None"
    by (simp add: market_def ex_tracker_def)
  have resting: "market (ex_tracker OrderPlaced zero_ExecutionReport) 1 ''BTCUSDT''
                   = Some \<lparr>bid = 0, ask = 0, orderContext = Some ''a1''\<rparr>"
    by (simp add: market_def ex_tracker_def)
  have ne: "(1, ''BTCUSDT'') \<noteq> (2 :: ExchangeID, ''ETHUSDT'')" and ne': "(1 :: ExchangeID) \<noteq> 2"
    by simp_all
  show ?thesis
    using PushQuote_overwrites_one_entry [of "ex_tracker OrderPlaced zero_ExecutionReport" 2 "''ETHUSDT''" 105 100]
          absent resting ne ne'
    by auto
qed

section \<open>Fills\<close>

lemma OrderFilled_first:
  assumes "fmlookup (orders t) clid = Some ctx" and "Kind (LastReport ctx) \<noteq> ReportFilled"
  shows "Tracker_OrderFilled t clid time e p =
           (store t clid (ctx\<lparr>Status := OrderFilled,
              LastReport := (LastReport ctx)\<lparr>Time := time, Kind := ReportFilled,
                                              ReportAmount := e, ReportPrice := p\<rparr>\<rparr>),
            Return None)"
  using assms by (simp add: Tracker_OrderFilled_def Let_def)

lemma OrderFilled_next:
  assumes "fmlookup (orders t) clid = Some ctx" and "Kind (LastReport ctx) = ReportFilled"
      and "ReportAmount (LastReport ctx) + e \<noteq> 0"
  shows "Tracker_OrderFilled t clid time e p =
           (store t clid (ctx\<lparr>Status := OrderFilled,
              LastReport := (LastReport ctx)\<lparr>Time := time,
                ReportPrice := (ReportAmount (LastReport ctx) * ReportPrice (LastReport ctx) + e * p)
                                 div (ReportAmount (LastReport ctx) + e),
                ReportAmount := ReportAmount (LastReport ctx) + e\<rparr>\<rparr>),
            Return None)"
  using assms by (simp add: Tracker_OrderFilled_def Let_def)

lemma OrderFilled_zero_divisor:
  assumes "fmlookup (orders t) clid = Some ctx" and "Kind (LastReport ctx) = ReportFilled"
      and "ReportAmount (LastReport ctx) + e = 0"
  shows "Tracker_OrderFilled t clid time e p =
           (store t clid (ctx\<lparr>Status := OrderFilled, LastReport := (LastReport ctx)\<lparr>Time := time\<rparr>\<rparr>),
            Panic ''runtime error: integer divide by zero'')"
  using assms by (simp add: Tracker_OrderFilled_def Let_def)

lemma OrderFilled_unknown:
  "fmlookup (orders t) clid = None \<Longrightarrow>
     Tracker_OrderFilled t clid time e p = (t, Return (Some (err_not_found clid)))"
  by (simp add: Tracker_OrderFilled_def)

text \<open>When nothing wraps around, the 64-bit results are the exact integer results.\<close>

lemma unat_vwap_exact:
  fixes a p e q :: uint64
  assumes num: "unat a * unat p + unat e * unat q < 2 ^ 64"
      and den: "unat a + unat e < 2 ^ 64"
  shows "unat ((a * p + e * q) div (a + e)) = (unat a * unat p + unat e * unat q) div (unat a + unat e)"
    and "unat (a + e) = unat a + unat e"
proof -
  have ap: "unat a * unat p < 2 ^ 64" and eq: "unat e * unat q < 2 ^ 64"
    using num by simp_all
  have 1: "unat (a * p) = unat a * unat p"
    using ap by (simp add: unat_word_ariths)
  have 2: "unat (e * q) = unat e * unat q"
    using eq by (simp add: unat_word_ariths)
  have 3: "unat (a * p + e * q) = unat a * unat p + unat e * unat q"
    using num by (simp add: unat_word_ariths 1 2)
  show 4: "unat (a + e) = unat a + unat e"
    using den by (simp add: unat_word_ariths)
  show "unat ((a * p + e * q) div (a + e)) = (unat a * unat p + unat e * unat q) div (unat a + unat e)"
    by (simp add: unat_div 3 4)
qed

lemma store_ex_tracker: "store (ex_tracker st r) ''a1'' (ex_ctx st' r') = ex_tracker st' r'"
  by (simp add: store_def ex_tracker_def)

lemma ex_ctx_updates:
  "(ex_ctx st r)\<lparr>Status := st'\<rparr> = ex_ctx st' r"
  "(ex_ctx st r)\<lparr>LastReport := r'\<rparr> = ex_ctx st r'"
  "LastReport (ex_ctx st r) = r"
  "Status (ex_ctx st r) = st"
  "Order (ex_ctx st r) = ex_order"
  by (simp_all add: ex_ctx_def)

text \<open>
  C1, as the code has it. For a tracked order, in each of the cases listed here
  \<^verbatim>\<open>OrderFilled\<close> returns no error and sets the status to Filled and the report time to the
  given time, and
  \<^item> if the previous report kind is not Filled, the report gets kind Filled, the executed
    amount as amount and the given average price as price;
  \<^item> if the previous report kind is Filled and the \<^verbatim>\<open>uint64\<close> sum of the previous amount
    and the executed amount is not zero, the new price is
    \<open>(prevAmount * prevPrice + execAmount * execPrice) div (prevAmount + execAmount)\<close> and
    the new amount \<open>prevAmount + execAmount\<close>, all in \<^verbatim>\<open>uint64\<close> arithmetic (sums and
    products modulo \<open>2 ^ 64\<close>, truncating division);
  \<^item> these are the exact integer values whenever the sum of the amounts is positive and it
    and the sum of the two products are below \<open>2 ^ 64\<close>;
  \<^item> a fill of 100 at 10 followed by a fill of 300 at 20, on an order whose previous
    report is not a fill, gives amount 400, price 17, report kind Filled and status Filled.
\<close>

theorem OrderFilled_aggregates_uint64:
  assumes "fmlookup (orders t) clid = Some ctx"
  shows "(Kind (LastReport ctx) \<noteq> ReportFilled \<longrightarrow>
            snd (Tracker_OrderFilled t clid time e p) = Return None
            \<and> fmlookup (orders (fst (Tracker_OrderFilled t clid time e p))) clid
                = Some (ctx\<lparr>Status := OrderFilled,
                     LastReport := (LastReport ctx)\<lparr>Time := time, Kind := ReportFilled,
                                                     ReportAmount := e, ReportPrice := p\<rparr>\<rparr>))
       \<and> (Kind (LastReport ctx) = ReportFilled \<and> ReportAmount (LastReport ctx) + e \<noteq> 0 \<longrightarrow>
            snd (Tracker_OrderFilled t clid time e p) = Return None
            \<and> fmlookup (orders (fst (Tracker_OrderFilled t clid time e p))) clid
                = Some (ctx\<lparr>Status := OrderFilled,
                     LastReport := (LastReport ctx)\<lparr>Time := time,
                       ReportPrice :=
                         (ReportAmount (LastReport ctx) * ReportPrice (LastReport ctx) + e * p)
                           div (ReportAmount (LastReport ctx) + e),
                       ReportAmount := ReportAmount (LastReport ctx) + e\<rparr>\<rparr>))
       \<and> (Kind (LastReport ctx) = ReportFilled
            \<and> 0 < unat (ReportAmount (LastReport ctx)) + unat e
            \<and> unat (ReportAmount (LastReport ctx)) + unat e < 2 ^ 64
            \<and> unat (ReportAmount (LastReport ctx)) * unat (ReportPrice (LastReport ctx))
                + unat e * unat p < 2 ^ 64 \<longrightarrow>
            snd (Tracker_OrderFilled t clid time e p) = Return None
            \<and> (\<exists>ctx'. fmlookup (orders (fst (Tracker_OrderFilled t clid time e p))) clid = Some ctx'
                  \<and> Status ctx' = OrderFilled
                  \<and> Kind (LastReport ctx') = ReportFilled
                  \<and> unat (ReportPrice (LastReport ctx'))
                      = (unat (ReportAmount (LastReport ctx)) * unat (ReportPrice (LastReport ctx))
                           + unat e * unat p)
                        div (unat (ReportAmount (LastReport ctx)) + unat e)
                  \<and> unat (ReportAmount (LastReport ctx'))
                      = unat (ReportAmount (LastReport ctx)) + unat e))
       \<and> (Kind (LastReport ctx) \<noteq> ReportFilled \<longrightarrow>
            snd (Tracker_OrderFilled (fst (Tracker_OrderFilled t clid time 100 10)) clid time' 300 20)
              = Return None
            \<and> (\<exists>ctx'. fmlookup (orders (fst (Tracker_OrderFilled
                          (fst (Tracker_OrderFilled t clid time 100 10)) clid time' 300 20))) clid
                        = Some ctx'
                  \<and> ReportAmount (LastReport ctx') = 400
                  \<and> ReportPrice (LastReport ctx') = 17
                  \<and> Kind (LastReport ctx') = ReportFilled
                  \<and> Status ctx' = OrderFilled))"
proof (intro conjI impI)
  assume "Kind (LastReport ctx) \<noteq> ReportFilled"
  then have first: "Tracker_OrderFilled t clid time e p =
           (store t clid (ctx\<lparr>Status := OrderFilled,
              LastReport := (LastReport ctx)\<lparr>Time := time, Kind := ReportFilled,
                                              ReportAmount := e, ReportPrice := p\<rparr>\<rparr>),
            Return None)" for e p
    using assms by (rule OrderFilled_first [rotated])
  show "snd (Tracker_OrderFilled t clid time e p) = Return None"
    by (simp add: first)
  show "fmlookup (orders (fst (Tracker_OrderFilled t clid time e p))) clid
          = Some (ctx\<lparr>Status := OrderFilled,
               LastReport := (LastReport ctx)\<lparr>Time := time, Kind := ReportFilled,
                                               ReportAmount := e, ReportPrice := p\<rparr>\<rparr>)"
    by (simp add: first)
  let ?t1 = "fst (Tracker_OrderFilled t clid time 100 10)"
  let ?c1 = "ctx\<lparr>Status := OrderFilled,
               LastReport := (LastReport ctx)\<lparr>Time := time, Kind := ReportFilled,
                                               ReportAmount := 100, ReportPrice := 10\<rparr>\<rparr>"
  have tracked1: "fmlookup (orders ?t1) clid = Some ?c1"
    by (simp add: first)
  have second: "Tracker_OrderFilled ?t1 clid time' 300 20 =
           (store ?t1 clid (?c1\<lparr>Status := OrderFilled,
              LastReport := (LastReport ?c1)\<lparr>Time := time',
                ReportPrice := (ReportAmount (LastReport ?c1) * ReportPrice (LastReport ?c1) + 300 * 20)
                                 div (ReportAmount (LastReport ?c1) + 300),
                ReportAmount := ReportAmount (LastReport ?c1) + 300\<rparr>\<rparr>),
            Return None)"
    by (rule OrderFilled_next [OF tracked1]) simp_all
  show "snd (Tracker_OrderFilled ?t1 clid time' 300 20) = Return None"
    by (simp only: second snd_conv)
  show "\<exists>ctx'. fmlookup (orders (fst (Tracker_OrderFilled ?t1 clid time' 300 20))) clid = Some ctx'
          \<and> ReportAmount (LastReport ctx') = 400
          \<and> ReportPrice (LastReport ctx') = 17
          \<and> Kind (LastReport ctx') = ReportFilled
          \<and> Status ctx' = OrderFilled"
    by (simp only: second fst_conv) simp
next
  assume h: "Kind (LastReport ctx) = ReportFilled \<and> ReportAmount (LastReport ctx) + e \<noteq> 0"
  then have nxt: "Tracker_OrderFilled t clid time e p =
           (store t clid (ctx\<lparr>Status := OrderFilled,
              LastReport := (LastReport ctx)\<lparr>Time := time,
                ReportPrice := (ReportAmount (LastReport ctx) * ReportPrice (LastReport ctx) + e * p)
                                 div (ReportAmount (LastReport ctx) + e),
                ReportAmount := ReportAmount (LastReport ctx) + e\<rparr>\<rparr>),
            Return None)"
    using assms by (intro OrderFilled_next) simp_all
  show "snd (Tracker_OrderFilled t clid time e p) = Return None"
    by (simp add: nxt)
  show "fmlookup (orders (fst (Tracker_OrderFilled t clid time e p))) clid
          = Some (ctx\<lparr>Status := OrderFilled,
               LastReport := (LastReport ctx)\<lparr>Time := time,
                 ReportPrice :=
                   (ReportAmount (LastReport ctx) * ReportPrice (LastReport ctx) + e * p)
                     div (ReportAmount (LastReport ctx) + e),
                 ReportAmount := ReportAmount (LastReport ctx) + e\<rparr>\<rparr>)"
    by (simp add: nxt)
next
  let ?A = "ReportAmount (LastReport ctx)" and ?P = "ReportPrice (LastReport ctx)"
  assume h: "Kind (LastReport ctx) = ReportFilled
            \<and> 0 < unat ?A + unat e
            \<and> unat ?A + unat e < 2 ^ 64
            \<and> unat ?A * unat ?P + unat e * unat p < 2 ^ 64"
  then have num: "unat ?A * unat ?P + unat e * unat p < 2 ^ 64"
    and den: "unat ?A + unat e < 2 ^ 64"
    by blast+
  have sum: "unat (?A + e) = unat ?A + unat e"
    by (rule unat_vwap_exact(2) [OF num den])
  have price: "unat ((?A * ?P + e * p) div (?A + e))
                 = (unat ?A * unat ?P + unat e * unat p) div (unat ?A + unat e)"
    by (rule unat_vwap_exact(1) [OF num den])
  from h sum have "unat (?A + e) \<noteq> 0" by simp
  then have nz: "?A + e \<noteq> 0" by (simp add: unat_eq_0)
  have nxt: "Tracker_OrderFilled t clid time e p =
           (store t clid (ctx\<lparr>Status := OrderFilled,
              LastReport := (LastReport ctx)\<lparr>Time := time,
                ReportPrice := (?A * ?P + e * p) div (?A + e),
                ReportAmount := ?A + e\<rparr>\<rparr>),
            Return None)"
    using assms h nz by (intro OrderFilled_next) simp_all
  show "snd (Tracker_OrderFilled t clid time e p) = Return None"
    by (simp add: nxt)
  show "\<exists>ctx'. fmlookup (orders (fst (Tracker_OrderFilled t clid time e p))) clid = Some ctx'
          \<and> Status ctx' = OrderFilled
          \<and> Kind (LastReport ctx') = ReportFilled
          \<and> unat (ReportPrice (LastReport ctx'))
              = (unat ?A * unat ?P + unat e * unat p) div (unat ?A + unat e)
          \<and> unat (ReportAmount (LastReport ctx')) = unat ?A + unat e"
    using h sum price by (simp add: nxt)
qed

lemma OrderFilled_ex_first:
  "Kind r \<noteq> ReportFilled \<Longrightarrow>
     Tracker_OrderFilled (ex_tracker st r) ''a1'' time e p =
       (ex_tracker OrderFilled
          (r\<lparr>Time := time, Kind := ReportFilled, ReportAmount := e, ReportPrice := p\<rparr>),
        Return None)"
  using OrderFilled_first [OF ex_tracker_lookup, of st r time e p]
  by (simp add: ex_ctx_updates store_ex_tracker)

lemma OrderFilled_ex_next:
  "Kind r = ReportFilled \<Longrightarrow> ReportAmount r + e \<noteq> 0 \<Longrightarrow>
     Tracker_OrderFilled (ex_tracker st r) ''a1'' time e p =
       (ex_tracker OrderFilled
          (r\<lparr>Time := time,
             ReportPrice := (ReportAmount r * ReportPrice r + e * p) div (ReportAmount r + e),
             ReportAmount := ReportAmount r + e\<rparr>),
        Return None)"
  using OrderFilled_next [OF ex_tracker_lookup, of st r e time p]
  by (simp add: ex_ctx_updates store_ex_tracker)

lemma OrderFilled_ex_zero_divisor:
  "Kind r = ReportFilled \<Longrightarrow> ReportAmount r + e = 0 \<Longrightarrow>
     Tracker_OrderFilled (ex_tracker st r) ''a1'' time e p =
       (ex_tracker OrderFilled (r\<lparr>Time := time\<rparr>), Panic ''runtime error: integer divide by zero'')"
  using OrderFilled_zero_divisor [OF ex_tracker_lookup, of st r e time p]
  by (simp add: ex_ctx_updates store_ex_tracker)

lemma OrderRejected_ex_Filled:
  "Tracker_OrderRejected (ex_tracker OrderFilled r) ''a1'' time reason =
     (ex_tracker OrderFilled (r\<lparr>Kind := ReportRejected, Time := time, Message := reason\<rparr>),
      Return (Some (err_status
        (''order status should be '' @ quoted ''OrderPlacing'' @ '', ''
           @ quoted ''OrderModifying'' @ '' or '' @ quoted ''OrderCanceling'' @ '' to reject'')
        ''a1'' OrderFilled)))"
  by (simp add: Tracker_OrderRejected_def ex_tracker_lookup Let_def ex_ctx_updates store_ex_tracker
        OrderStatus_defs)

theorem OrderFilled_aggregates_uint64_witness:
  "fmlookup (orders (ex_tracker OrderPlaced zero_ExecutionReport)) ''a1''
     = Some (ex_ctx OrderPlaced zero_ExecutionReport)
   \<and> Kind (LastReport (ex_ctx OrderPlaced zero_ExecutionReport)) \<noteq> ReportFilled
   \<and> fmlookup (orders (fst (Tracker_OrderFilled (ex_tracker OrderPlaced zero_ExecutionReport)
                               ''a1'' 1 100 10))) ''a1''
       = Some (ex_ctx OrderFilled
                \<lparr>Kind = ReportFilled, Time = 1, Message = [], ReportAmount = 100, ReportPrice = 10\<rparr>)
   \<and> (\<exists>ctx'. fmlookup (orders (fst (Tracker_OrderFilled
                 (fst (Tracker_OrderFilled (ex_tracker OrderPlaced zero_ExecutionReport) ''a1'' 1 100 10))
                 ''a1'' 2 300 20))) ''a1'' = Some ctx'
           \<and> ReportAmount (LastReport ctx') = 400
           \<and> ReportPrice (LastReport ctx') = 17
           \<and> Kind (LastReport ctx') = ReportFilled
           \<and> Status ctx' = OrderFilled)
   \<and> fmlookup (orders (ex_tracker OrderFilled
         \<lparr>Kind = ReportFilled, Time = 1, Message = [], ReportAmount = 100, ReportPrice = 10\<rparr>)) ''a1''
       = Some (ex_ctx OrderFilled
                \<lparr>Kind = ReportFilled, Time = 1, Message = [], ReportAmount = 100, ReportPrice = 10\<rparr>)
   \<and> (100 :: uint64) + 300 \<noteq> 0
   \<and> unat (100 :: uint64) * unat (10 :: uint64) + unat (300 :: uint64) * unat (20 :: uint64) < 2 ^ 64
   \<and> fmlookup (orders (fst (Tracker_OrderFilled (ex_tracker OrderFilled
         \<lparr>Kind = ReportFilled, Time = 1, Message = [], ReportAmount = 100, ReportPrice = 10\<rparr>)
         ''a1'' 2 300 20))) ''a1''
       = Some (ex_ctx OrderFilled
                \<lparr>Kind = ReportFilled, Time = 2, Message = [], ReportAmount = 400, ReportPrice = 17\<rparr>)
   \<and> (\<exists>ctx'. fmlookup (orders (fst (Tracker_OrderFilled (ex_tracker OrderFilled
         \<lparr>Kind = ReportFilled, Time = 1, Message = [], ReportAmount = 100, ReportPrice = 10\<rparr>)
         ''a1'' 2 300 20))) ''a1'' = Some ctx'
           \<and> unat (ReportPrice (LastReport ctx')) = (100 * 10 + 300 * 20) div (100 + 300)
           \<and> unat (ReportAmount (LastReport ctx')) = 100 + 300)"
  using OrderFilled_aggregates_uint64
          [OF ex_tracker_lookup, of OrderPlaced zero_ExecutionReport 1 100 10 2]
        OrderFilled_aggregates_uint64
          [OF ex_tracker_lookup, of OrderFilled
             "\<lparr>Kind = ReportFilled, Time = 1, Message = [], ReportAmount = 100, ReportPrice = 10\<rparr>"
             2 300 20 2]
  by (simp add: ex_tracker_lookup ex_ctx_def zero_ExecutionReport_def ExecutionReportKind_defs)

text \<open>
  C1 as stated asks for the exact integer quotient. Two fills of \<open>2 ^ 33\<close> units at the
  price \<open>2 ^ 31\<close> have the exact volume-weighted price \<open>2 ^ 31\<close>; each product is
  \<open>2 ^ 64\<close>, which is \<open>0\<close> in \<^verbatim>\<open>uint64\<close>, and the tracker records the price \<open>0\<close>.
\<close>

theorem OrderFilled_exact_quotient_counterexample:
  "run NewTracker [Placing ex_order,
                   Filled ''a1'' 1 8589934592 2147483648,
                   Filled ''a1'' 2 8589934592 2147483648]
     = ex_tracker OrderFilled
         \<lparr>Kind = ReportFilled, Time = 2, Message = [], ReportAmount = 17179869184, ReportPrice = 0\<rparr>
   \<and> (8589934592 * 2147483648 + 8589934592 * 2147483648) div (8589934592 + 8589934592)
       = (2147483648 :: nat)
   \<and> unat (0 :: uint64) \<noteq> 2147483648"
  by (simp add: OrderPlacing_NewTracker OrderFilled_ex_first OrderFilled_ex_next
        zero_ExecutionReport_def ExecutionReportKind_defs)

subsection \<open>The amount after fills have begun\<close>

text \<open>Every operation other than a fill of the order leaves the report's amount as it was.\<close>

lemma apply_op_keeps_ReportAmount:
  assumes "fmlookup (orders t) c = Some ctx"
      and "\<forall>time e p. x \<noteq> Filled c time e p"
  shows "\<exists>ctx'. fmlookup (orders (fst (apply_op t x))) c = Some ctx'
           \<and> ReportAmount (LastReport ctx') = ReportAmount (LastReport ctx)"
proof (cases x)
  case (Placing order)
  then show ?thesis
    using assms(1) by (cases "ClientID order = c") (auto simp: Tracker_OrderPlacing_def Let_def split: option.splits)
next
  case (PlaceConfirmed clid time)
  then show ?thesis
    using assms(1) by (auto simp: Tracker_OrderPlaceConfirmed_def Let_def split: option.splits)
next
  case (Rejected clid time reason)
  then show ?thesis
    using assms(1) by (auto simp: Tracker_OrderRejected_def Let_def split: option.splits)
next
  case (Moving clid)
  then show ?thesis
    using assms(1) by (auto simp: Tracker_OrderMoving_def Let_def split: option.splits)
next
  case (MoveConfirmed clid time price)
  then show ?thesis
    using assms(1) by (auto simp: Tracker_OrderMoveConfirmed_def Let_def split: option.splits)
next
  case (Cancelling clid)
  then show ?thesis
    using assms(1) by (auto simp: Tracker_OrderCancelling_def Let_def split: option.splits)
next
  case (CancelConfirmed clid time)
  then show ?thesis
    using assms(1) by (auto simp: Tracker_OrderCancelConfirmed_def Let_def split: option.splits)
next
  case (Filled clid time executedAmount avgPrice)
  with assms(2) have "clid \<noteq> c" by auto
  with Filled show ?thesis
    using assms(1) by (auto simp: Tracker_OrderFilled_def Let_def split: option.splits)
next
  case (Quote exchangeID symbolID bid' ask')
  then show ?thesis
    using assms(1) by (simp add: Tracker_PushQuote_def Let_def)
qed

text \<open>
  C2 at a concrete run. The order is placed and filled with 100 at 10: the report has kind
  Filled and amount 100. A rejection then arrives (of a modification sent before the
  fill, say): \<^verbatim>\<open>OrderRejected\<close> returns its error, the status stays Filled and the amount
  stays 100, but the report kind is now Rejected. The next fill, 50 at 20, finds a report
  kind other than Filled, takes the branch for a single trade and sets the amount to 50:
  the amount has gone from 100 to 50 and the first fill is lost.
\<close>

theorem fill_after_failed_reject_resets_amount:
  "run NewTracker [Placing ex_order, Filled ''a1'' 1 100 10]
     = ex_tracker OrderFilled
         \<lparr>Kind = ReportFilled, Time = 1, Message = [], ReportAmount = 100, ReportPrice = 10\<rparr>
   \<and> apply_op (run NewTracker [Placing ex_order, Filled ''a1'' 1 100 10]) (Rejected ''a1'' 2 ''late'')
     = (ex_tracker OrderFilled
          \<lparr>Kind = ReportRejected, Time = 2, Message = ''late'', ReportAmount = 100, ReportPrice = 10\<rparr>,
        Return (Some (err_status
          (''order status should be '' @ quoted ''OrderPlacing'' @ '', ''
             @ quoted ''OrderModifying'' @ '' or '' @ quoted ''OrderCanceling'' @ '' to reject'')
          ''a1'' OrderFilled)))
   \<and> run NewTracker [Placing ex_order, Filled ''a1'' 1 100 10,
                     Rejected ''a1'' 2 ''late'', Filled ''a1'' 3 50 20]
     = ex_tracker OrderFilled
         \<lparr>Kind = ReportFilled, Time = 3, Message = ''late'', ReportAmount = 50, ReportPrice = 20\<rparr>
   \<and> unat (50 :: uint64) < unat (100 :: uint64)"
  by (simp add: OrderPlacing_NewTracker OrderFilled_ex_first OrderRejected_ex_Filled
        zero_ExecutionReport_def ExecutionReportKind_defs)

subsection \<open>When a fill fails\<close>

text \<open>
  \<^verbatim>\<open>OrderFilled\<close> returns an error exactly for an unknown identifier, and for a known one
  the stored status is Filled afterwards whatever it was, also when the method panics.
\<close>

lemma OrderFilled_error_iff_unknown:
  "(\<exists>msg. snd (Tracker_OrderFilled t clid time e p) = Return (Some msg))
     \<longleftrightarrow> fmlookup (orders t) clid = None"
  by (auto simp: Tracker_OrderFilled_def Let_def split: option.splits)

lemma OrderFilled_sets_status:
  "fmlookup (orders t) clid = Some ctx \<Longrightarrow>
     \<exists>ctx'. fmlookup (orders (fst (Tracker_OrderFilled t clid time e p))) clid = Some ctx'
       \<and> Status ctx' = OrderFilled"
  by (simp add: Tracker_OrderFilled_def Let_def)

lemma OrderFilled_panics_iff:
  "(\<exists>msg. snd (Tracker_OrderFilled t clid time e p) = Panic msg)
     \<longleftrightarrow> (\<exists>ctx. fmlookup (orders t) clid = Some ctx \<and> Kind (LastReport ctx) = ReportFilled
               \<and> ReportAmount (LastReport ctx) + e = 0)"
  by (auto simp: Tracker_OrderFilled_def Let_def split: option.splits)

text \<open>
  C3 at a concrete run. The order is placed and a fill with executed amount 0 is
  reported: the report has kind Filled and amount 0. A second fill with executed amount 0
  takes the aggregating branch, whose divisor is \<open>0 + 0\<close>: the call neither succeeds nor
  returns an error, it panics with an integer division by zero.
\<close>

theorem OrderFilled_zero_amount_twice_panics:
  "run NewTracker [Placing ex_order, Filled ''a1'' 1 0 10]
     = ex_tracker OrderFilled
         \<lparr>Kind = ReportFilled, Time = 1, Message = [], ReportAmount = 0, ReportPrice = 10\<rparr>
   \<and> Tracker_OrderFilled (run NewTracker [Placing ex_order, Filled ''a1'' 1 0 10]) ''a1'' 2 0 10
     = (ex_tracker OrderFilled
          \<lparr>Kind = ReportFilled, Time = 2, Message = [], ReportAmount = 0, ReportPrice = 10\<rparr>,
        Panic ''runtime error: integer divide by zero'')"
  by (simp add: OrderPlacing_NewTracker OrderFilled_ex_first OrderFilled_ex_zero_divisor
        zero_ExecutionReport_def ExecutionReportKind_defs)

section \<open>Names of the enumerations\<close>

text \<open>
  \<^verbatim>\<open>ExchangeID.String\<close> names the three venues and has the default branch too; the
  constant \<^verbatim>\<open>ExchangeCount\<close> is not a venue and falls to the default.
\<close>

lemma ExchangeID_String_names:
  "map ExchangeID_String [ExchangeNone, ExchangeBinance, ExchangeKraken]
     = [''None'', ''Binance'', ''Kraken'']
   \<and> ExchangeID_String ExchangeCount = ''Unknown''
   \<and> (\<forall>v. v \<notin> {ExchangeNone, ExchangeBinance, ExchangeKraken} \<longrightarrow> ExchangeID_String v = ''Unknown'')"
  by (simp add: ExchangeID_String_def ExchangeNone_def ExchangeBinance_def ExchangeKraken_def
        ExchangeCount_def)

text \<open>
  C9, the part the code has. \<^verbatim>\<open>OrderStatus.String\<close> is a total function that maps the
  six declared statuses to the names Unplaced, Placing, Placed, Modifying, Canceling and
  Filled and every other value to Unknown; on the six declared statuses it is injective
  and never yields Unknown, so the name determines the status. The six report kinds are
  the distinct values \<open>0\<close> to \<open>5\<close>, declared in the order None, Placed, Modified,
  Canceled, Filled, Rejected. The type \<^verbatim>\<open>ExecutionReportKind\<close> has no \<^verbatim>\<open>String\<close> method
  (executionreport.go declares the type, its constants and the struct
  \<^verbatim>\<open>ExecutionReport\<close>, and no other file adds a method), so for report kinds there is
  no function in the code of which the claimed names and the Unknown fallback could be
  stated.
\<close>

theorem OrderStatus_String_names:
  "map OrderStatus_String
       [OrderUnplaced, OrderPlacing, OrderPlaced, OrderModifying, OrderCanceling, OrderFilled]
     = [''Unplaced'', ''Placing'', ''Placed'', ''Modifying'', ''Canceling'', ''Filled'']
   \<and> (\<forall>v. v \<notin> {OrderUnplaced, OrderPlacing, OrderPlaced, OrderModifying, OrderCanceling, OrderFilled}
          \<longrightarrow> OrderStatus_String v = ''Unknown'')
   \<and> (\<forall>v \<in> {OrderUnplaced, OrderPlacing, OrderPlaced, OrderModifying, OrderCanceling, OrderFilled}.
          OrderStatus_String v \<noteq> ''Unknown'')
   \<and> inj_on OrderStatus_String
        {OrderUnplaced, OrderPlacing, OrderPlaced, OrderModifying, OrderCanceling, OrderFilled}
   \<and> [ReportNone, ReportPlaced, ReportModified, ReportCanceled, ReportFilled, ReportRejected]
       = [0, 1, 2, 3, 4, 5]"
proof (intro conjI)
  show "map OrderStatus_String
       [OrderUnplaced, OrderPlacing, OrderPlaced, OrderModifying, OrderCanceling, OrderFilled]
     = [''Unplaced'', ''Placing'', ''Placed'', ''Modifying'', ''Canceling'', ''Filled'']"
    by (simp add: OrderStatus_String_def OrderStatus_defs)
  show "\<forall>v. v \<notin> {OrderUnplaced, OrderPlacing, OrderPlaced, OrderModifying, OrderCanceling, OrderFilled}
          \<longrightarrow> OrderStatus_String v = ''Unknown''"
    by (simp add: OrderStatus_String_def)
  show "\<forall>v \<in> {OrderUnplaced, OrderPlacing, OrderPlaced, OrderModifying, OrderCanceling, OrderFilled}.
          OrderStatus_String v \<noteq> ''Unknown''"
    by (simp add: OrderStatus_String_def OrderStatus_defs)
  show "inj_on OrderStatus_String
        {OrderUnplaced, OrderPlacing, OrderPlaced, OrderModifying, OrderCanceling, OrderFilled}"
    by (simp add: OrderStatus_String_def OrderStatus_defs)
  show "[ReportNone, ReportPlaced, ReportModified, ReportCanceled, ReportFilled, ReportRejected]
       = [0, 1, 2, 3, 4, 5]"
    by (simp add: ExecutionReportKind_defs)
qed

theorem OrderStatus_String_names_witness:
  "(6 :: OrderStatus) \<notin> {OrderUnplaced, OrderPlacing, OrderPlaced, OrderModifying, OrderCanceling, OrderFilled}
   \<and> OrderStatus_String 6 = ''Unknown''
   \<and> OrderStatus_String (- 1) = ''Unknown''
   \<and> OrderModifying \<in> {OrderUnplaced, OrderPlacing, OrderPlaced, OrderModifying, OrderCanceling, OrderFilled}
   \<and> OrderStatus_String OrderModifying = ''Modifying''
   \<and> OrderStatus_String OrderModifying \<noteq> ''Unknown''
   \<and> OrderStatus_String OrderModifying \<noteq> OrderStatus_String OrderCanceling"
proof -
  have out: "(6 :: OrderStatus) \<notin> {OrderUnplaced, OrderPlacing, OrderPlaced, OrderModifying, OrderCanceling, OrderFilled}"
    "(- 1 :: OrderStatus) \<notin> {OrderUnplaced, OrderPlacing, OrderPlaced, OrderModifying, OrderCanceling, OrderFilled}"
    "OrderModifying \<noteq> OrderCanceling"
    by (simp_all add: OrderStatus_defs)
  show ?thesis
    using OrderStatus_String_names out
    by (auto simp: inj_on_def)
qed

end
